theory Spec2Isabelle
  imports Main
begin

section \<open>Text primitives of the Python source\<close>

text \<open>
  Python text is modelled as \<^typ>\<open>string\<close>; every \<^typ>\<open>char\<close> stands for one code
  point below 256. The functions of this section are the \<open>str\<close> methods that
  \<open>aptparser.py\<close> and \<open>apt-mirror.py\<close> call, restricted to that range.
\<close>

abbreviation nl :: char where
  "nl \<equiv> CHR 0x0A"

text \<open>\<open>str.isspace\<close> on one code point; \<open>str.strip()\<close>, \<open>int()\<close> and the \<open>\s\<close>
  of \<open>re\<close> (on \<open>str\<close> patterns) all use this set.\<close>

definition is_space :: "char \<Rightarrow> bool" where
  "is_space c =
     (let n = (of_char c :: nat)
      in (9 \<le> n \<and> n \<le> 13) \<or> (28 \<le> n \<and> n \<le> 32) \<or> n = 133 \<or> n = 160)"

definition is_digit :: "char \<Rightarrow> bool" where
  "is_digit c = (let n = (of_char c :: nat) in 48 \<le> n \<and> n \<le> 57)"

text \<open>\<open>s.strip(chars)\<close>: drop the characters of a class at both ends.\<close>

definition strip_chars :: "(char \<Rightarrow> bool) \<Rightarrow> string \<Rightarrow> string" where
  "strip_chars P s = rev (dropWhile P (rev (dropWhile P s)))"

text \<open>\<open>s.strip()\<close> and \<open>s.strip("\n")\<close>.\<close>

definition strip_ws :: "string \<Rightarrow> string" where
  "strip_ws s = strip_chars is_space s"

definition strip_nl :: "string \<Rightarrow> string" where
  "strip_nl s = strip_chars (\<lambda>c. c = nl) s"

text \<open>\<open>s.startswith(p)\<close>.\<close>

definition starts_with :: "string \<Rightarrow> string \<Rightarrow> bool" where
  "starts_with p s = (take (length p) s = p)"

text \<open>\<open>s.split(sep)\<close> for a non-empty separator: the pieces between the
  occurrences of \<open>sep\<close>, found left to right without overlap. The second argument is
  the piece being collected.\<close>

function split_loop :: "string \<Rightarrow> string \<Rightarrow> string \<Rightarrow> string list" where
  "split_loop sep acc [] = [acc]"
| "split_loop sep acc (c # cs) =
     (if sep \<noteq> [] \<and> starts_with sep (c # cs)
      then acc # split_loop sep [] (drop (length sep) (c # cs))
      else split_loop sep (acc @ [c]) cs)"
  by pat_completeness auto
termination
  by (relation "measure (\<lambda>(sep, acc, s). length s)") auto

definition py_split :: "string \<Rightarrow> string \<Rightarrow> string list" where
  "py_split sep s = split_loop sep [] s"

text \<open>\<open>s.split(sep, 1)\<close> unpacked into two names: the text before and after the
  first occurrence of \<open>sep\<close>; \<open>None\<close> when there is no occurrence (the unpacking
  raises \<open>ValueError\<close>).\<close>

fun split_once :: "string \<Rightarrow> string \<Rightarrow> string \<Rightarrow> (string \<times> string) option" where
  "split_once sep acc [] = None"
| "split_once sep acc (c # cs) =
     (if starts_with sep (c # cs) then Some (acc, drop (length sep) (c # cs))
      else split_once sep (acc @ [c]) cs)"

text \<open>\<open>"\n".join(xs)\<close>.\<close>

fun join_nl :: "string list \<Rightarrow> string" where
  "join_nl [] = []"
| "join_nl [x] = x"
| "join_nl (x # y # ys) = x @ nl # join_nl (y # ys)"

text \<open>\<open>s.lower()\<close>: the upper-case letters below code point 256 are \<open>A\<close> to \<open>Z\<close>
  and 0xC0 to 0xDE without 0xD7; each maps 32 places up.\<close>

definition lower_char :: "char \<Rightarrow> char" where
  "lower_char c =
     (let n = (of_char c :: nat)
      in if (65 \<le> n \<and> n \<le> 90) \<or> (192 \<le> n \<and> n \<le> 222 \<and> n \<noteq> 215)
         then char_of (n + 32) else c)"

definition lower :: "string \<Rightarrow> string" where
  "lower s = map lower_char s"

text \<open>\<open>int(s)\<close> in base 10: surrounding whitespace, an optional sign, then digits,
  with single underscores allowed between digits. \<open>None\<close> is \<open>ValueError\<close>. (The
  bound that recent interpreters put on the number of digits is not modelled.)\<close>

fun digits_ok :: "bool \<Rightarrow> string \<Rightarrow> bool" where
  "digits_ok after_digit [] = after_digit"
| "digits_ok after_digit (c # cs) =
     (if is_digit c then digits_ok True cs
      else if c = CHR ''_'' \<and> after_digit then \<not> (cs = []) \<and> digits_ok False cs
      else False)"

fun digits_value :: "nat \<Rightarrow> string \<Rightarrow> nat" where
  "digits_value acc [] = acc"
| "digits_value acc (c # cs) =
     (if is_digit c then digits_value (10 * acc + (of_char c - 48)) cs
      else digits_value acc cs)"

definition py_int :: "string \<Rightarrow> int option" where
  "py_int s =
     (let t = strip_ws s;
          neg = starts_with ''-'' t;
          ds = (if starts_with ''-'' t \<or> starts_with ''+'' t then tl t else t)
      in if digits_ok False ds
         then Some (if neg then - int (digits_value 0 ds) else int (digits_value 0 ds))
         else None)"

section \<open>Control Record Parser: \<open>parse_package_metadata\<close>\<close>

text \<open>A value of the parsed mapping is text, or the integer that \<open>int(v)\<close> made of the
  \<open>Size\<close> header. The mapping itself is the Python \<open>dict\<close> \<open>pkg\<close>.\<close>

datatype pyvalue = Text string | Number int

type_synonym fields = "string \<rightharpoonup> pyvalue"

datatype error =
    ValueError
  | TypeError
  | AttributeError
  | DebSrcLineUnparseable
  | DebSrcNotImplemented
  | InvalidListException
  | BadGzipFile
  | NameError

text \<open>A line is a continuation of the field before it when \<open>startswith(" ")\<close> holds.\<close>

definition is_continuation :: "string \<Rightarrow> bool" where
  "is_continuation line = starts_with '' '' line"

text \<open>What the inner loop appends for one continuation line: the line stripped, and
  the empty text for a line that is exactly a dot.\<close>

definition continuation_text :: "string \<Rightarrow> string" where
  "continuation_text line = (let s = strip_ws line in if s = ''.'' then [] else s)"

text \<open>The value stored for one header \<open>k: t\<close> followed by the continuation lines
  \<open>conts\<close>. A \<open>Size\<close> header is converted first (\<open>ValueError\<close> when \<open>int\<close> refuses);
  with continuation lines the list \<open>exp_lines\<close> then starts with an integer and
  \<open>"\n".join\<close> raises \<open>TypeError\<close>.\<close>

definition field_value :: "string \<Rightarrow> string \<Rightarrow> string list \<Rightarrow> error + pyvalue" where
  "field_value k t conts =
     (if k = ''Size'' then
        (case py_int t of
           None \<Rightarrow> Inl ValueError
         | Some n \<Rightarrow> if conts = [] then Inr (Number n) else Inl TypeError)
      else Inr (Text (join_nl (t # map continuation_text conts))))"

text \<open>The \<open>while lines\<close> loop: pop a header line, split it at the first \<open>": "\<close>, pop
  the continuation lines that follow, store the value under the lower-cased name.\<close>

function parse_lines :: "string list \<Rightarrow> fields \<Rightarrow> error + fields" where
  "parse_lines [] pkg = Inr pkg"
| "parse_lines (line # lines) pkg =
     (case split_once '': '' [] line of
        None \<Rightarrow> Inl ValueError
      | Some (k, t) \<Rightarrow>
          (case field_value k t (takeWhile is_continuation lines) of
             Inl e \<Rightarrow> Inl e
           | Inr v \<Rightarrow> parse_lines (dropWhile is_continuation lines) (pkg(lower k \<mapsto> v))))"
  by pat_completeness auto
termination
  by (relation "measure (\<lambda>(ls, pkg). length ls)")
     (auto simp: less_Suc_eq_le length_dropWhile_le)

definition parse_package_metadata :: "string \<Rightarrow> error + fields" where
  "parse_package_metadata package = parse_lines (py_split [nl] (strip_nl package)) Map.empty"

section \<open>Version Resolver: \<open>get_larger_version\<close> and the catalog loop of \<open>main\<close>\<close>

text \<open>A record of the catalog is a \<open>SimpleNamespace\<close> built from the parsed mapping;
  a snapshot read back by \<open>json.load\<close> holds plain \<open>dict\<close>s instead. Attribute access
  (\<open>package.version\<close> and the like) finds the fields of a namespace and raises
  \<open>AttributeError\<close> on a \<open>dict\<close> (none of the names the source reads, \<open>package\<close>,
  \<open>version\<close>, \<open>size\<close>, \<open>uri\<close>, \<open>filename\<close>, is a method of \<open>dict\<close>).\<close>

datatype pyobj = Namespace fields | Dict fields

text \<open>The field mapping of a record of either kind.\<close>

fun fields_of :: "pyobj \<Rightarrow> fields" where
  "fields_of (Namespace f) = f"
| "fields_of (Dict f) = f"

fun getattr :: "pyobj \<Rightarrow> string \<Rightarrow> error + pyvalue" where
  "getattr (Namespace f) a = (case f a of None \<Rightarrow> Inl AttributeError | Some v \<Rightarrow> Inr v)"
| "getattr (Dict f) a = Inl AttributeError"

type_synonym catalog = "string \<rightharpoonup> pyobj"

text \<open>\<open>apt_pkg.version_compare\<close> belongs to a library outside the repository, so the
  resolver takes the comparison as a parameter: an integer that is positive, zero or
  negative. The library refuses arguments that are not text with \<open>TypeError\<close>.\<close>

definition get_larger_version ::
  "(string \<Rightarrow> string \<Rightarrow> int) \<Rightarrow> pyobj \<Rightarrow> pyobj \<Rightarrow> error + pyobj" where
  "get_larger_version version_compare pkg1 pkg2 =
     (case getattr pkg1 ''version'' of
        Inl e \<Rightarrow> Inl e
      | Inr v1 \<Rightarrow>
          (case getattr pkg2 ''version'' of
             Inl e \<Rightarrow> Inl e
           | Inr v2 \<Rightarrow>
               (case (v1, v2) of
                  (Text a, Text b) \<Rightarrow>
                    Inr (if version_compare a b \<ge> 1 then pkg1 else pkg2)
                | _ \<Rightarrow> Inl TypeError)))"

text \<open>Lines 299 to 304 of \<open>main\<close>: read the name, then store the record or the
  result of \<open>get_larger_version\<close> on the stored record and the new one. The catalog is
  declared \<open>Dict[str, SimpleNamespace]\<close>; a name that is an integer cannot come out of
  \<open>parse_package_metadata\<close> (lemma \<open>parse_lines_number_only_size\<close> below) and is
  answered here with \<open>TypeError\<close>.\<close>

definition add_package ::
  "(string \<Rightarrow> string \<Rightarrow> int) \<Rightarrow> catalog \<Rightarrow> pyobj \<Rightarrow> error + catalog" where
  "add_package version_compare packages package =
     (case getattr package ''package'' of
        Inl e \<Rightarrow> Inl e
      | Inr (Number n) \<Rightarrow> Inl TypeError
      | Inr (Text name) \<Rightarrow>
          (case packages name of
             None \<Rightarrow> Inr (packages(name \<mapsto> package))
           | Some stored \<Rightarrow>
               (case get_larger_version version_compare stored package of
                  Inl e \<Rightarrow> Inl e
                | Inr winner \<Rightarrow> Inr (packages(name \<mapsto> winner)))))"

text \<open>The loop over \<open>package_data\<close> (lines 294 to 304): empty stanzas are passed
  over; an exception of the parser or of the name lookup is not caught, so it ends
  the run.\<close>

fun process_packages ::
  "(string \<Rightarrow> string \<Rightarrow> int) \<Rightarrow> string list \<Rightarrow> catalog \<Rightarrow> error + catalog" where
  "process_packages version_compare [] packages = Inr packages"
| "process_packages version_compare (package # rest) packages =
     (if package = [] then process_packages version_compare rest packages
      else
        (case parse_package_metadata package of
           Inl e \<Rightarrow> Inl e
         | Inr pkg \<Rightarrow>
             (case add_package version_compare packages (Namespace pkg) of
                Inl e \<Rightarrow> Inl e
              | Inr packages' \<Rightarrow> process_packages version_compare rest packages')))"

subsection \<open>The same loop in \<open>apt-mirror.py\<close>\<close>

text \<open>Lines 134 to 168 of \<open>apt-mirror.py\<close> parse the stanza in place (the same
  statements as \<open>parse_package_metadata\<close>) and wrap the name lookup in \<open>try\<close> with a
  bare \<open>except\<close> that prints the record. The loop then goes on to the catalog update
  with the variable \<open>name\<close> as the stanza before left it; \<open>None\<close> stands for the
  variable not being bound yet, which raises \<open>NameError\<close>.\<close>

fun mirror_process_packages ::
  "(string \<Rightarrow> string \<Rightarrow> int) \<Rightarrow> string list \<Rightarrow> pyvalue option \<Rightarrow> catalog \<Rightarrow>
     error + catalog" where
  "mirror_process_packages version_compare [] name packages = Inr packages"
| "mirror_process_packages version_compare (package # rest) name packages =
     (if package = [] then mirror_process_packages version_compare rest name packages
      else
        (case parse_package_metadata package of
           Inl e \<Rightarrow> Inl e
         | Inr pkg \<Rightarrow>
             (case (case pkg ''package'' of None \<Rightarrow> name | Some v \<Rightarrow> Some v) of
                None \<Rightarrow> Inl NameError
              | Some (Number n) \<Rightarrow> Inl TypeError
              | Some (Text current) \<Rightarrow>
                  (case packages current of
                     None \<Rightarrow>
                       mirror_process_packages version_compare rest (Some (Text current))
                         (packages(current \<mapsto> Namespace pkg))
                   | Some stored \<Rightarrow>
                       (case get_larger_version version_compare stored (Namespace pkg) of
                          Inl e \<Rightarrow> Inl e
                        | Inr winner \<Rightarrow>
                            mirror_process_packages version_compare rest (Some (Text current))
                              (packages(current \<mapsto> winner)))))))"

subsection \<open>A concrete comparison: the Debian version ordering\<close>

text \<open>Modelled from the spec: \<open>apt_pkg.version_compare\<close> is not part of the
  repository. Section 4.5 of the specification asks for the Debian ordering: an epoch
  before the first colon, a revision after the last hyphen, and each part compared by
  alternating a non-digit prefix (letters before other characters, the tilde before
  everything, even the end of the part) with a numeric prefix. The result is
  normalised to -1, 0 or 1. It instantiates the parameter of the resolver where a
  theorem evaluates a concrete run.\<close>

definition is_alpha :: "char \<Rightarrow> bool" where
  "is_alpha c =
     (let n = (of_char c :: nat) in (65 \<le> n \<and> n \<le> 90) \<or> (97 \<le> n \<and> n \<le> 122))"

definition order_char :: "char \<Rightarrow> int" where
  "order_char c =
     (if c = CHR ''~'' then - 1
      else if is_alpha c then int (of_char c)
      else int (of_char c) + 256)"

fun compare_nondigit :: "string \<Rightarrow> string \<Rightarrow> int" where
  "compare_nondigit [] [] = 0"
| "compare_nondigit (x # xs) [] = (if order_char x < 0 then - 1 else 1)"
| "compare_nondigit [] (y # ys) = (if order_char y < 0 then 1 else - 1)"
| "compare_nondigit (x # xs) (y # ys) =
     (if order_char x < order_char y then - 1
      else if order_char y < order_char x then 1
      else compare_nondigit xs ys)"

lemma length_drop_digits:
  "a \<noteq> [] \<Longrightarrow>
   length (dropWhile is_digit (dropWhile (\<lambda>c. \<not> is_digit c) a)) < length a"
proof (cases a)
  case Nil
  assume "a \<noteq> []"
  with Nil show ?thesis by simp
next
  case (Cons x xs)
  have le: "\<And>P ys. length (dropWhile P ys) \<le> length (ys :: string)"
    by (rule length_dropWhile_le)
  show ?thesis
  proof (cases "is_digit x")
    case True
    then show ?thesis
      using Cons le [of is_digit xs] by simp
  next
    case False
    have "length (dropWhile is_digit (dropWhile (\<lambda>c. \<not> is_digit c) xs))
            \<le> length (dropWhile (\<lambda>c. \<not> is_digit c) xs)"
      by (rule le)
    also have "\<dots> \<le> length xs"
      by (rule le)
    finally show ?thesis
      using Cons False by simp
  qed
qed

function compare_fragment :: "string \<Rightarrow> string \<Rightarrow> int" where
  "compare_fragment a b =
     (if a = [] \<and> b = [] then 0
      else
        (let c = compare_nondigit (takeWhile (\<lambda>c. \<not> is_digit c) a)
                   (takeWhile (\<lambda>c. \<not> is_digit c) b);
             a1 = dropWhile (\<lambda>c. \<not> is_digit c) a;
             b1 = dropWhile (\<lambda>c. \<not> is_digit c) b;
             na = digits_value 0 (takeWhile is_digit a1);
             nb = digits_value 0 (takeWhile is_digit b1)
         in if c \<noteq> 0 then c
            else if na < nb then - 1
            else if nb < na then 1
            else compare_fragment (dropWhile is_digit a1) (dropWhile is_digit b1)))"
  by pat_completeness auto
termination
proof (relation "measure (\<lambda>(a, b). length a + length b)", goal_cases)
  case 1
  show ?case by simp
next
  case (2 a b)
  have le: "\<And>ys. length (dropWhile is_digit (dropWhile (\<lambda>c. \<not> is_digit c) ys))
              \<le> length (ys :: string)"
    by (metis length_dropWhile_le order_trans)
  from 2 have "a \<noteq> [] \<or> b \<noteq> []" by simp
  then show ?case
  proof
    assume "a \<noteq> []"
    from length_drop_digits [OF this] le [of b] 2 show ?thesis by simp
  next
    assume "b \<noteq> []"
    from length_drop_digits [OF this] le [of a] 2 show ?thesis by simp
  qed
qed

declare compare_fragment.simps [simp del]

definition split_epoch :: "string \<Rightarrow> string \<times> string" where
  "split_epoch v = (case split_once '':'' [] v of None \<Rightarrow> ([], v) | Some (e, r) \<Rightarrow> (e, r))"

definition split_revision :: "string \<Rightarrow> string \<times> string" where
  "split_revision v =
     (if CHR ''-'' \<in> set v
      then (rev (tl (dropWhile (\<lambda>c. c \<noteq> CHR ''-'') (rev v))),
            rev (takeWhile (\<lambda>c. c \<noteq> CHR ''-'') (rev v)))
      else (v, []))"

definition deb_version_compare :: "string \<Rightarrow> string \<Rightarrow> int" where
  "deb_version_compare a b =
     (let (ea, ra) = split_epoch a; (eb, rb) = split_epoch b;
          (ua, da) = split_revision ra; (ub, db) = split_revision rb;
          c1 = compare_fragment ea eb; c2 = compare_fragment ua ub
      in if c1 \<noteq> 0 then c1 else if c2 \<noteq> 0 then c2 else compare_fragment da db)"

section \<open>Snapshot interface: \<open>NamespaceEncoder\<close>, \<open>json.dump\<close> and \<open>json.load\<close>\<close>

text \<open>The snapshot is a JSON object of JSON objects whose members are strings or
  integers; it is modelled as that tree, the text layer of the \<open>json\<close> library being
  outside the repository. \<open>json.dump\<close> calls \<open>NamespaceEncoder.default\<close> on every
  \<open>SimpleNamespace\<close> it meets. \<open>default\<close> takes the live \<open>__dict__\<close> of the object,
  stores the key \<open>__class__\<close> in it and returns it, so the call yields the mapping
  that is written and leaves the object changed. A plain \<open>dict\<close> is written as it
  is.\<close>

type_synonym json_doc = "string \<rightharpoonup> fields"

fun encode_record :: "pyobj \<Rightarrow> fields \<times> pyobj" where
  "encode_record (Namespace f) =
     (let obj_data = f(''__class__'' \<mapsto> Text ''SimpleNamespace'')
      in (obj_data, Namespace obj_data))"
| "encode_record (Dict f) = (f, Dict f)"

text \<open>\<open>json.dump(packages, file, cls=NamespaceEncoder)\<close>: the document written and the
  catalog as it is in memory afterwards.\<close>

definition json_dump :: "catalog \<Rightarrow> json_doc \<times> catalog" where
  "json_dump packages =
     ((\<lambda>name. map_option (\<lambda>r. fst (encode_record r)) (packages name)),
      (\<lambda>name. map_option (\<lambda>r. snd (encode_record r)) (packages name)))"

text \<open>\<open>json.load(file)\<close>, called with no \<open>object_hook\<close>: every JSON object becomes a
  \<open>dict\<close>.\<close>

definition json_load :: "json_doc \<Rightarrow> catalog" where
  "json_load doc = (\<lambda>name. map_option Dict (doc name))"

section \<open>Source Line Parser: the regular expressions of \<open>aptparser.py\<close>\<close>








section \<open>Index Fetcher: \<open>get_packages_from_deb_line\<close>\<close>

text \<open>\<open>os.path.join\<close> of \<open>posixpath\<close>: a part that starts with a slash replaces what was
  joined before it.\<close>

definition join2 :: "string \<Rightarrow> string \<Rightarrow> string" where
  "join2 path b =
     (if starts_with ''/'' b then b
      else if path = [] \<or> last path = CHR ''/'' then path @ b
      else path @ ''/'' @ b)"

definition path_join :: "string \<Rightarrow> string list \<Rightarrow> string" where
  "path_join a parts = foldl join2 a parts"

definition packages_file_url :: "string \<Rightarrow> string \<Rightarrow> string \<Rightarrow> string" where
  "packages_file_url source_url source_release source_component =
     path_join source_url
       [''dists'', source_release, source_component, ''binary-amd64/Packages.gz'']"

text \<open>\<open>URL_MATCHER.match(url).group(1)\<close> for the pattern
  \<open>https?://(.*)\.(gz|xz|lzma|bz2)\<close>: the text after the scheme up to the last place, on
  the first line, where a dot and one of the four suffixes stand. \<open>None\<close> when the
  pattern does not match (the source then fails on \<open>None.group\<close>).\<close>

definition strip_scheme :: "string \<Rightarrow> string option" where
  "strip_scheme u =
     (if starts_with ''https://'' u then Some (drop 8 u)
      else if starts_with ''http://'' u then Some (drop 7 u)
      else None)"

definition ext_at :: "string \<Rightarrow> bool" where
  "ext_at t =
     (starts_with ''.gz'' t \<or> starts_with ''.xz'' t \<or> starts_with ''.lzma'' t \<or>
      starts_with ''.bz2'' t)"

fun last_ext :: "string \<Rightarrow> nat \<Rightarrow> nat option" where
  "last_ext s 0 = (if ext_at s then Some 0 else None)"
| "last_ext s (Suc n) = (if ext_at (drop (Suc n) s) then Some (Suc n) else last_ext s n)"

definition url_matcher_group1 :: "string \<Rightarrow> string option" where
  "url_matcher_group1 u =
     (case strip_scheme u of
        None \<Rightarrow> None
      | Some rest \<Rightarrow>
          (case last_ext rest (length (takeWhile (\<lambda>c. c \<noteq> nl) rest)) of
             None \<Rightarrow> None
           | Some i \<Rightarrow> Some (take i rest)))"

text \<open>\<open>s.replace("/", "_")\<close>.\<close>

definition replace_slash :: "string \<Rightarrow> string" where
  "replace_slash s = map (\<lambda>c. if c = CHR ''/'' then CHR ''_'' else c) s"

text \<open>Lines 215 to 219: the path in the index cache of the system.\<close>

definition local_file_path :: "string \<Rightarrow> error + string" where
  "local_file_path packages_file =
     (case url_matcher_group1 packages_file of
        None \<Rightarrow> Inl AttributeError
      | Some g \<Rightarrow> Inr (path_join ''/var/lib/apt/lists'' [replace_slash g]))"

text \<open>The world outside the program. The network is a function from the URL to the
  response; \<open>gunzip\<close> stands for \<open>gzip.decompress(...).decode()\<close>, \<open>None\<close> where it
  raises. The state holds the regular files with their content and the list of the
  URLs requested so far. Directories are not modelled.\<close>

record response =
  status_code :: nat
  content :: string
  content_length :: "string option"

record env =
  http_get :: "string \<Rightarrow> response"
  gunzip :: "string \<Rightarrow> string option"

record sys =
  files :: "string \<rightharpoonup> string"
  requests :: "string list"

text \<open>Lines 214 to 232 for one component: the index text and the state after it.\<close>

definition fetch_index :: "env \<Rightarrow> string \<Rightarrow> sys \<Rightarrow> error + (string \<times> sys)" where
  "fetch_index e packages_file st =
     (case local_file_path packages_file of
        Inl err \<Rightarrow> Inl err
      | Inr local \<Rightarrow>
          (case files st local of
             Some text \<Rightarrow> Inr (text, st)
           | None \<Rightarrow>
               (let st' = st\<lparr>requests := requests st @ [packages_file]\<rparr>;
                    req = http_get e packages_file
                in if status_code req = 200
                   then (case gunzip e (content req) of
                           None \<Rightarrow> Inl BadGzipFile
                         | Some text \<Rightarrow> Inr (text, st'))
                   else Inl ValueError)))"




section \<open>The two loops of \<open>main\<close>\<close>



section \<open>Source List Resolver: the line loop of \<open>get_deb_lines\<close>\<close>







section \<open>Mirror/Download Driver: the download loop of \<open>main\<close>\<close>

text \<open>\<open>str\<close> of a value inside an f-string: a text as it is, an integer in decimal.\<close>

function show_nat :: "nat \<Rightarrow> string" where
  "show_nat n =
     (if n < 10 then [char_of (48 + n)]
      else show_nat (n div 10) @ [char_of (48 + n mod 10)])"
  by pat_completeness auto
termination
  by (relation "measure id") auto

declare show_nat.simps [simp del]

fun py_str :: "pyvalue \<Rightarrow> string" where
  "py_str (Text s) = s"
| "py_str (Number i) = (if i < 0 then CHR ''-'' # show_nat (nat (- i)) else show_nat (nat i))"

text \<open>Lines 337 to 351: the request, then the target opened for writing (which
  empties it), then the \<open>content-length\<close> header converted with \<open>int\<close>, then the body
  written chunk by chunk. An exception leaves the state as it is at that point.\<close>

definition fetch_to :: "env \<Rightarrow> string \<Rightarrow> string \<Rightarrow> sys \<Rightarrow> error option \<times> sys" where
  "fetch_to e url target st =
     (let req = http_get e url;
          requested = st\<lparr>requests := requests st @ [url]\<rparr>;
          opened = requested\<lparr>files := (files requested)(target \<mapsto> [])\<rparr>
      in case content_length req of
           None \<Rightarrow> (Some TypeError, opened)
         | Some header \<Rightarrow>
             (case py_int header of
                None \<Rightarrow> (Some ValueError, opened)
              | Some total_length \<Rightarrow>
                  (None, opened\<lparr>files := (files opened)(target \<mapsto> content req)\<rparr>)))"

text \<open>Lines 328 to 335 and the download after them, for one record: the URL and the
  target are formatted first; a target that is a file whose size equals
  \<open>package.size\<close> is passed over with \<open>continue\<close>.\<close>

definition download_package :: "env \<Rightarrow> string \<Rightarrow> pyobj \<Rightarrow> sys \<Rightarrow> error option \<times> sys" where
  "download_package e output_dir package st =
     (case getattr package ''uri'' of
        Inl err \<Rightarrow> (Some err, st)
      | Inr uri \<Rightarrow>
          (case getattr package ''filename'' of
             Inl err \<Rightarrow> (Some err, st)
           | Inr filename \<Rightarrow>
               (let url = py_str uri @ ''/'' @ py_str filename;
                    target = output_dir @ ''/'' @ py_str filename
                in case files st target of
                     None \<Rightarrow> fetch_to e url target st
                   | Some existing \<Rightarrow>
                       (case getattr package ''size'' of
                          Inl err \<Rightarrow> (Some err, st)
                        | Inr package_size \<Rightarrow>
                            if package_size = Number (int (length existing)) then (None, st)
                            else fetch_to e url target st))))"

text \<open>The loop over the records, in the order in which \<open>main\<close> visits them (sorted by
  name in \<open>aptparser.py\<close>, in catalog order in \<open>apt-mirror.py\<close>); an exception ends it.\<close>

fun download_all ::
  "env \<Rightarrow> string \<Rightarrow> (string \<times> pyobj) list \<Rightarrow> sys \<Rightarrow> error option \<times> sys" where
  "download_all e output_dir [] st = (None, st)"
| "download_all e output_dir ((package_name, package) # rest) st =
     (case download_package e output_dir package st of
        (Some err, st') \<Rightarrow> (Some err, st')
      | (None, st') \<Rightarrow> download_all e output_dir rest st')"

text \<open>The condition of the idempotence property, in the words of the specification:
  the record names its source and its file, a file exists at the target, and the
  size of that file equals the \<open>size\<close> field of the record.\<close>

definition already_downloaded :: "string \<Rightarrow> pyobj \<Rightarrow> sys \<Rightarrow> bool" where
  "already_downloaded output_dir package st =
     (case (getattr package ''uri'', getattr package ''filename'') of
        (Inr uri, Inr filename) \<Rightarrow>
          (case files st (output_dir @ ''/'' @ py_str filename) of
             None \<Rightarrow> False
           | Some existing \<Rightarrow> getattr package ''size'' = Inr (Number (int (length existing))))
      | _ \<Rightarrow> False)"

section \<open>Reading the parser's result\<close>

text \<open>The lines that the loop of \<open>parse_package_metadata\<close> pops as headers: the first
  line, and every line that follows the continuation lines of the header before it.\<close>

function header_lines :: "string list \<Rightarrow> string list" where
  "header_lines [] = []"
| "header_lines (line # lines) = line # header_lines (dropWhile is_continuation lines)"
  by pat_completeness auto
termination
  by (relation "measure length") (auto simp: less_Suc_eq_le length_dropWhile_le)

text \<open>A stored value \<open>v\<close> comes from the header \<open>K: t\<close>: an integer only from a header
  spelled \<open>Size\<close>, and then the integer that \<open>int(t)\<close> reads; a text from any other
  header, and then one that begins with \<open>t\<close>.\<close>

definition from_header :: "string \<Rightarrow> string \<Rightarrow> pyvalue \<Rightarrow> bool" where
  "from_header K t v =
     (case v of
        Number n \<Rightarrow> K = ''Size'' \<and> py_int t = Some n
      | Text s \<Rightarrow> K \<noteq> ''Size'' \<and> starts_with t s)"

text \<open>The body of an index URL: what \<open>os.path.join\<close> makes of the base URL without
  its scheme, the release and the component, up to the suffix \<open>.gz\<close>.\<close>

definition index_body :: "string \<Rightarrow> string \<Rightarrow> string \<Rightarrow> string" where
  "index_body host source_release source_component =
     path_join host [''dists'', source_release, source_component, ''binary-amd64/Packages'']"

section \<open>Concrete stanzas, records and catalogs\<close>

definition stanza_hello :: string where
  "stanza_hello =
     ''Package: hello'' @ nl # ''Version: 1.0'' @ nl # ''Size: 10'' @ nl #
     ''uri: http://a.test/debian''"

definition fields_hello :: fields where
  "fields_hello =
     [''package'' \<mapsto> Text ''hello'', ''version'' \<mapsto> Text ''1.0'', ''size'' \<mapsto> Number 10,
      ''uri'' \<mapsto> Text ''http://a.test/debian'']"

definition stanza_without_package :: string where
  "stanza_without_package = ''Version: 1.0'' @ nl # ''uri: http://a.test/debian''"


definition stanza_folded :: string where
  "stanza_folded =
     ''Package: hello'' @ nl # ''Description: greeter'' @ nl # '' a'' @ nl # '' .'' @ nl #
     '' b'' @ nl # ''uri: http://a.test/debian''"

definition fields_folded :: fields where
  "fields_folded =
     [''package'' \<mapsto> Text ''hello'',
      ''description'' \<mapsto> Text (''greeter'' @ nl # ''a'' @ [nl, nl] @ ''b''),
      ''uri'' \<mapsto> Text ''http://a.test/debian'']"

definition stanza_folded_empty :: string where
  "stanza_folded_empty =
     ''Package: hello'' @ nl # ''Description: '' @ nl # '' a'' @ nl # '' .'' @ nl #
     '' b'' @ nl # ''uri: http://a.test/debian''"

definition stored_hello :: pyobj where
  "stored_hello =
     Namespace [''package'' \<mapsto> Text ''hello'', ''version'' \<mapsto> Text ''1.0'',
                ''uri'' \<mapsto> Text ''http://a.test/debian'']"

definition second_hello :: pyobj where
  "second_hello =
     Namespace [''package'' \<mapsto> Text ''hello'', ''version'' \<mapsto> Text ''1.0'',
                ''uri'' \<mapsto> Text ''http://b.test/debian'']"

definition older_hello :: pyobj where
  "older_hello =
     Namespace [''package'' \<mapsto> Text ''hello'', ''version'' \<mapsto> Text ''1.0~rc1'',
                ''uri'' \<mapsto> Text ''http://b.test/debian'']"

section \<open>A concrete repository\<close>




definition url_main :: string where
  "url_main = ''http://example.test/debian/dists/bookworm/main/binary-amd64/Packages.gz''"

definition body_main :: string where
  "body_main = ''example.test/debian/dists/bookworm/main/binary-amd64/Packages''"

definition cache_main :: string where
  "cache_main =
     ''/var/lib/apt/lists/example.test_debian_dists_bookworm_main_binary-amd64_Packages''"

definition index_main :: string where
  "index_main =
     ''Package: hello'' @ nl # ''uri: http://other.test/elsewhere'' @ nl # ''Version: 1.0'' @ [nl]"


definition env0 :: env where
  "env0 =
     \<lparr>http_get = (\<lambda>url. \<lparr>status_code = 200, content = ''0123456789'',
                            content_length = Some ''10''\<rparr>),
      gunzip = (\<lambda>bytes. Some index_main)\<rparr>"

definition sys0 :: sys where
  "sys0 = \<lparr>files = Map.empty, requests = []\<rparr>"

definition sys_cached :: sys where
  "sys_cached = \<lparr>files = [cache_main \<mapsto> index_main], requests = []\<rparr>"

definition record_hello :: pyobj where
  "record_hello =
     Namespace [''package'' \<mapsto> Text ''hello'', ''version'' \<mapsto> Text ''1.0'',
                ''size'' \<mapsto> Number 10, ''filename'' \<mapsto> Text ''pool/hello.deb'',
                ''uri'' \<mapsto> Text ''http://example.test/debian'']"

definition sys_downloaded :: sys where
  "sys_downloaded =
     \<lparr>files = [''/tmp/apt-download/pool/hello.deb'' \<mapsto> ''0123456789''],
      requests = [''http://example.test/debian/pool/hello.deb'']\<rparr>"

text \<open>The cache path in the words of the specification: the index-cache root joined
  with the URL text, its scheme stripped and every slash replaced by an underscore.\<close>

definition spec_cache_path :: "string \<Rightarrow> string" where
  "spec_cache_path url =
     path_join ''/var/lib/apt/lists''
       [replace_slash (case strip_scheme url of None \<Rightarrow> url | Some rest \<Rightarrow> rest)]"

section \<open>Evaluation on concrete text\<close>

lemmas text_eval =
  parse_package_metadata_def py_split_def strip_nl_def strip_ws_def strip_chars_def
  starts_with_def field_value_def is_continuation_def continuation_text_def
  lower_def lower_char_def char_of_def bit_Suc_0_iff is_space_def is_digit_def
  py_int_def Let_def

lemmas version_eval =
  deb_version_compare_def split_epoch_def split_revision_def starts_with_def
  compare_fragment.simps is_digit_def is_alpha_def order_char_def Let_def

lemma parse_stanza_hello: "parse_package_metadata stanza_hello = Inr fields_hello"
  by (simp add: stanza_hello_def fields_hello_def text_eval)

lemma parse_stanza_without_package:
  "parse_package_metadata stanza_without_package =
     Inr [''version'' \<mapsto> Text ''1.0'', ''uri'' \<mapsto> Text ''http://a.test/debian'']"
  by (simp add: stanza_without_package_def text_eval)

lemma stanzas_not_empty: "stanza_hello \<noteq> []" "stanza_without_package \<noteq> []"
  by (simp_all add: stanza_hello_def stanza_without_package_def)

lemma compare_tie: "deb_version_compare ''1.0'' ''1.0'' = 0"
  by (simp add: version_eval)

lemma compare_release_candidate: "deb_version_compare ''1.0'' ''1.0~rc1'' = 1"
  by (simp add: version_eval)

section \<open>Version Resolver\<close>

text \<open>
  Claim C1, as the code has it. When the name of a new record is already in the
  catalog, \<open>main\<close> stores the result of \<open>get_larger_version\<close> on the stored record and
  the new one: the stored record stays only when the comparison of its version with
  the new version is at least 1, that is, when the stored version is strictly greater.
  In every other case, a tie included, the new record replaces it.
\<close>

theorem resolver_keeps_stored_only_when_greater:
  assumes "packages name = Some stored"
    and "getattr package ''package'' = Inr (Text name)"
    and "getattr stored ''version'' = Inr (Text v1)"
    and "getattr package ''version'' = Inr (Text v2)"
  shows "add_package version_compare packages package =
           Inr (packages(name \<mapsto> (if 1 \<le> version_compare v1 v2 then stored else package)))"
  using assms by (simp add: add_package_def get_larger_version_def)

text \<open>The stored release 1.0 stays when a release candidate of it arrives.\<close>

theorem resolver_keeps_stored_only_when_greater_witness:
  "add_package deb_version_compare [''hello'' \<mapsto> stored_hello] older_hello =
     Inr [''hello'' \<mapsto> stored_hello]"
proof -
  have a: "[''hello'' \<mapsto> stored_hello] ''hello'' = Some stored_hello" by simp
  have b: "getattr older_hello ''package'' = Inr (Text ''hello'')"
    by (simp add: older_hello_def)
  have c: "getattr stored_hello ''version'' = Inr (Text ''1.0'')"
    by (simp add: stored_hello_def)
  have d: "getattr older_hello ''version'' = Inr (Text ''1.0~rc1'')"
    by (simp add: older_hello_def)
  show ?thesis
    using resolver_keeps_stored_only_when_greater
      [where packages = "[''hello'' \<mapsto> stored_hello]" and name = "''hello''"
         and version_compare = deb_version_compare, OF a b c d]
    by (simp add: compare_release_candidate)
qed

text \<open>Claim C1 as stated fails on a tie: two records of \<open>hello\<close> with the same version
  1.0 from two repositories; the record seen second replaces the one seen first.\<close>

theorem resolver_tie_counterexample:
  "deb_version_compare ''1.0'' ''1.0'' = 0 \<and>
   add_package deb_version_compare [''hello'' \<mapsto> stored_hello] second_hello =
     Inr [''hello'' \<mapsto> second_hello] \<and>
   getattr second_hello ''uri'' = Inr (Text ''http://b.test/debian'') \<and>
   getattr stored_hello ''uri'' = Inr (Text ''http://a.test/debian'')"
  by (simp add: add_package_def get_larger_version_def second_hello_def stored_hello_def
      compare_tie)

section \<open>Missing package name\<close>

lemma process_packages_append:
  "process_packages vc (xs @ ys) c =
     (case process_packages vc xs c of
        Inl e \<Rightarrow> Inl e
      | Inr c' \<Rightarrow> process_packages vc ys c')"
  by (induction xs arbitrary: c) (auto split: sum.splits)

text \<open>
  Claim C3, as the code has it. In \<open>aptparser.py\<close> nothing catches the
  \<open>AttributeError\<close> that \<open>package.package\<close> raises for a stanza that parses and has no
  \<open>package\<close> field: once the loop reaches such a stanza the run ends with that error,
  whatever stanzas follow, and no catalog is produced.
\<close>

theorem missing_package_aborts_run:
  assumes "process_packages version_compare before packages = Inr reached"
    and "stanza \<noteq> []"
    and "parse_package_metadata stanza = Inr pkg"
    and "pkg ''package'' = None"
  shows "process_packages version_compare (before @ stanza # rest) packages = Inl AttributeError"
  using assms by (simp add: process_packages_append add_package_def)

theorem missing_package_aborts_run_witness:
  "process_packages deb_version_compare
     ([stanza_hello] @ stanza_without_package # [stanza_hello]) Map.empty = Inl AttributeError"
proof -
  have a: "process_packages deb_version_compare [stanza_hello] Map.empty =
             Inr [''hello'' \<mapsto> Namespace fields_hello]"
    by (simp add: parse_stanza_hello stanzas_not_empty add_package_def fields_hello_def)
  have b: "[''version'' \<mapsto> Text ''1.0'', ''uri'' \<mapsto> Text ''http://a.test/debian''] ''package'' = None"
    by simp
  show ?thesis
    by (rule missing_package_aborts_run
          [OF a stanzas_not_empty(2) parse_stanza_without_package b])
qed

text \<open>Claim C3 as stated fails: the stanza without a name is not passed over. The
  stanza after it alone gives a catalog; behind the nameless stanza it is never
  reached.\<close>

theorem missing_package_counterexample:
  "process_packages deb_version_compare [stanza_without_package, stanza_hello] Map.empty =
     Inl AttributeError \<and>
   process_packages deb_version_compare [stanza_hello] Map.empty =
     Inr [''hello'' \<mapsto> Namespace fields_hello]"
  by (simp add: parse_stanza_hello parse_stanza_without_package stanzas_not_empty
      add_package_def fields_hello_def)

text \<open>The loop of \<open>apt-mirror.py\<close> catches the error and prints, but has no
  \<open>continue\<close>: the stanza without a name is then stored under the name of the stanza
  before it when its version is not lower, and as the first stanza of a run it ends
  the run with \<open>NameError\<close>.\<close>

lemma mirror_nameless_stanza:
  "mirror_process_packages deb_version_compare [stanza_hello, stanza_without_package] None
     Map.empty =
     Inr [''hello'' \<mapsto>
            Namespace [''version'' \<mapsto> Text ''1.0'', ''uri'' \<mapsto> Text ''http://a.test/debian'']] \<and>
   mirror_process_packages deb_version_compare [stanza_without_package, stanza_hello] None
     Map.empty = Inl NameError"
  by (simp add: parse_stanza_hello parse_stanza_without_package stanzas_not_empty
      get_larger_version_def fields_hello_def compare_tie)

section \<open>Snapshot\<close>

text \<open>
  Claim C10. \<open>json.dump\<close> leaves every \<open>SimpleNamespace\<close> record of the catalog with
  the key \<open>__class__\<close> set to \<open>"SimpleNamespace"\<close> in its own field mapping, its other
  fields as they were: the export changes the catalog in memory.
\<close>

theorem export_marks_every_record:
  assumes "packages name = Some (Namespace f)"
  shows "snd (json_dump packages) name =
           Some (Namespace (f(''__class__'' \<mapsto> Text ''SimpleNamespace'')))"
  using assms by (simp add: json_dump_def Let_def)

theorem export_marks_every_record_witness:
  "snd (json_dump [''hello'' \<mapsto> Namespace fields_hello]) ''hello'' =
     Some (Namespace (fields_hello(''__class__'' \<mapsto> Text ''SimpleNamespace''))) \<and>
   fields_hello ''__class__'' = None"
proof -
  have a: "[''hello'' \<mapsto> Namespace fields_hello] ''hello'' = Some (Namespace fields_hello)"
    by simp
  show ?thesis
    using export_marks_every_record
      [where packages = "[''hello'' \<mapsto> Namespace fields_hello]" and name = "''hello''", OF a]
    by (simp add: fields_hello_def)
qed

text \<open>
  Claim C2, as the code has it. Writing the catalog and reading the document back
  gives the same package names; the record read back for a name holds every field
  of the original record with its value, \<open>uri\<close> included, and the key \<open>__class__\<close>
  with the value \<open>"SimpleNamespace"\<close> in addition (in place of a field \<open>__class__\<close> of
  the original, if it had one).
\<close>

theorem snapshot_round_trip_adds_class:
  assumes "packages name = Some (Namespace f)"
  shows "dom (json_load (fst (json_dump packages))) = dom packages \<and>
         map_option fields_of (json_load (fst (json_dump packages)) name) =
           Some (f(''__class__'' \<mapsto> Text ''SimpleNamespace''))"
  using assms by (auto simp: json_dump_def json_load_def dom_def Let_def)

theorem snapshot_round_trip_adds_class_witness:
  "[''hello'' \<mapsto> Namespace fields_hello] ''hello'' = Some (Namespace fields_hello) \<and>
   dom (json_load (fst (json_dump [''hello'' \<mapsto> Namespace fields_hello]))) = {''hello''} \<and>
   map_option fields_of
     (json_load (fst (json_dump [''hello'' \<mapsto> Namespace fields_hello])) ''hello'') =
     Some (fields_hello(''__class__'' \<mapsto> Text ''SimpleNamespace''))"
proof -
  have a: "[''hello'' \<mapsto> Namespace fields_hello] ''hello'' = Some (Namespace fields_hello)"
    by simp
  show ?thesis
    using snapshot_round_trip_adds_class
      [where packages = "[''hello'' \<mapsto> Namespace fields_hello]" and name = "''hello''", OF a]
    by simp
qed

text \<open>Claim C2 as stated fails: the record read back has the field \<open>__class__\<close>, the
  original record has no such field.\<close>

theorem snapshot_round_trip_counterexample:
  "map_option fields_of
     (json_load (fst (json_dump [''hello'' \<mapsto> Namespace fields_hello])) ''hello'') =
     Some (fields_hello(''__class__'' \<mapsto> Text ''SimpleNamespace'')) \<and>
   (fields_hello(''__class__'' \<mapsto> Text ''SimpleNamespace'')) ''__class__'' =
     Some (Text ''SimpleNamespace'') \<and>
   map_option fields_of ([''hello'' \<mapsto> Namespace fields_hello] ''hello'') = Some fields_hello \<and>
   fields_hello ''__class__'' = None"
  by (simp add: json_dump_def json_load_def Let_def fields_hello_def)

text \<open>The records read back are plain mappings: \<open>json.load\<close> is given no hook that would
  rebuild a \<open>SimpleNamespace\<close>, and the attribute access that \<open>main\<close> makes next
  (\<open>package.package\<close>, line 306) raises on them.\<close>

lemma imported_record_has_no_attributes:
  assumes "json_load doc name = Some r"
  shows "getattr r a = Inl AttributeError"
  using assms by (auto simp: json_load_def)

section \<open>Control Record Parser\<close>

lemma join_nl_starts: "starts_with t (join_nl (t # xs))"
  by (cases xs) (simp_all add: starts_with_def)

lemma field_value_Number:
  "field_value K t cs = Inr (Number n) \<Longrightarrow> K = ''Size'' \<and> py_int t = Some n \<and> cs = []"
  by (auto simp: field_value_def split: if_splits option.splits)

lemma field_value_Text:
  "field_value K t cs = Inr (Text s) \<Longrightarrow>
     K \<noteq> ''Size'' \<and> s = join_nl (t # map continuation_text cs)"
  by (auto simp: field_value_def split: if_splits option.splits)

lemma field_value_from_header: "field_value K t cs = Inr v \<Longrightarrow> from_header K t v"
  by (cases v) (auto simp: from_header_def join_nl_starts dest: field_value_Number field_value_Text)

lemma parse_lines_step:
  assumes "parse_lines (line # lines) pkg0 = Inr pkg"
  obtains K t v0 where "split_once '': '' [] line = Some (K, t)"
    and "field_value K t (takeWhile is_continuation lines) = Inr v0"
    and "parse_lines (dropWhile is_continuation lines) (pkg0(lower K \<mapsto> v0)) = Inr pkg"
  using assms by (auto split: option.splits sum.splits)

lemma parse_lines_append:
  "\<not> is_continuation l \<Longrightarrow>
   parse_lines (pre @ l # rest) pkg0 =
     (case parse_lines pre pkg0 of Inl e \<Rightarrow> Inl e | Inr p \<Rightarrow> parse_lines (l # rest) p)"
proof (induction pre pkg0 rule: parse_lines.induct)
  case (1 pkg0)
  then show ?case by simp
next
  case (2 line lines pkg0)
  have tw: "takeWhile is_continuation (lines @ l # rest) = takeWhile is_continuation lines"
    using "2.prems" by (simp add: takeWhile_tail)
  have dw: "dropWhile is_continuation (lines @ l # rest) = dropWhile is_continuation lines @ l # rest"
    using "2.prems" by (simp add: dropWhile_append3)
  show ?case
  proof (cases "split_once '': '' [] line")
    case None
    then show ?thesis by simp
  next
    case (Some kt)
    obtain K t where kt: "kt = (K, t)" by (cases kt)
    show ?thesis
    proof (cases "field_value K t (takeWhile is_continuation lines)")
      case (Inl e)
      with Some kt tw show ?thesis by simp
    next
      case (Inr v)
      have "parse_lines ((line # lines) @ l # rest) pkg0 =
              parse_lines (dropWhile is_continuation lines @ l # rest) (pkg0(lower K \<mapsto> v))"
        using Some kt tw dw Inr by simp
      also have "\<dots> =
          (case parse_lines (dropWhile is_continuation lines) (pkg0(lower K \<mapsto> v)) of
             Inl e \<Rightarrow> Inl e | Inr p \<Rightarrow> parse_lines (l # rest) p)"
        by (rule "2.IH" [OF Some [unfolded kt] refl Inr "2.prems"])
      also have "\<dots> =
          (case parse_lines (line # lines) pkg0 of
             Inl e \<Rightarrow> Inl e | Inr p \<Rightarrow> parse_lines (l # rest) p)"
        using Some kt Inr by simp
      finally show ?thesis .
    qed
  qed
qed

lemma parse_lines_untouched:
  "parse_lines ls pkg0 = Inr pkg \<Longrightarrow>
   (\<forall>l \<in> set ls. \<forall>K t. split_once '': '' [] l = Some (K, t) \<longrightarrow> lower K \<noteq> k) \<Longrightarrow>
   pkg k = pkg0 k"
proof (induction ls pkg0 rule: parse_lines.induct)
  case (1 pkg0)
  then show ?case by simp
next
  case (2 line lines pkg0)
  from "2.prems"(1) obtain K t v0 where
    sp: "split_once '': '' [] line = Some (K, t)" and
    fv: "field_value K t (takeWhile is_continuation lines) = Inr v0" and
    rest: "parse_lines (dropWhile is_continuation lines) (pkg0(lower K \<mapsto> v0)) = Inr pkg"
    by (rule parse_lines_step)
  have "set (dropWhile is_continuation lines) \<subseteq> set (line # lines)"
    by (auto dest: set_dropWhileD)
  with "2.prems"(2)
  have "\<forall>l \<in> set (dropWhile is_continuation lines). \<forall>K t.
          split_once '': '' [] l = Some (K, t) \<longrightarrow> lower K \<noteq> k"
    by blast
  from "2.IH" [OF sp refl fv rest this] have "pkg k = (pkg0(lower K \<mapsto> v0)) k" .
  moreover from "2.prems"(2) sp have "lower K \<noteq> k" by simp
  ultimately show ?case by simp
qed

lemma continuation_fold:
  assumes "split_once '': '' [] hdr = Some (K, t)" and "K \<noteq> ''Size''"
    and "rest = [] \<or> \<not> is_continuation (hd rest)"
  shows "parse_lines (hdr # '' a'' # '' .'' # '' b'' # rest) pkg0 =
           parse_lines rest (pkg0(lower K \<mapsto> Text (t @ nl # ''a'' @ [nl, nl] @ ''b'')))"
proof -
  have c: "is_continuation '' a''" "is_continuation '' .''" "is_continuation '' b''"
    by (simp_all add: is_continuation_def starts_with_def)
  have tw: "takeWhile is_continuation ('' a'' # '' .'' # '' b'' # rest) = ['' a'', '' .'', '' b'']"
    using assms(3) c by (cases rest) auto
  have dw: "dropWhile is_continuation ('' a'' # '' .'' # '' b'' # rest) = rest"
    using assms(3) c by (cases rest) auto
  have conts: "continuation_text '' a'' = ''a''" "continuation_text '' .'' = []"
    "continuation_text '' b'' = ''b''"
    by (simp_all add: continuation_text_def strip_ws_def strip_chars_def is_space_def)
  show ?thesis
    using assms(1,2) by (simp add: tw dw conts field_value_def del: takeWhile.simps dropWhile.simps)
qed



lemma parse_lines_origin:
  "parse_lines ls pkg0 = Inr pkg \<Longrightarrow> pkg k = Some v \<Longrightarrow>
     pkg0 k = Some v \<or>
     (\<exists>line \<in> set (header_lines ls). \<exists>K t.
        split_once '': '' [] line = Some (K, t) \<and> k = lower K \<and> from_header K t v)"
proof (induction ls pkg0 rule: parse_lines.induct)
  case (1 pkg0)
  then show ?case by simp
next
  case (2 line lines pkg0)
  from "2.prems"(1) obtain K t v0 where
    sp: "split_once '': '' [] line = Some (K, t)" and
    fv: "field_value K t (takeWhile is_continuation lines) = Inr v0" and
    rest: "parse_lines (dropWhile is_continuation lines) (pkg0(lower K \<mapsto> v0)) = Inr pkg"
    by (rule parse_lines_step)
  from "2.IH" [OF sp refl fv rest "2.prems"(2)]
  consider (here) "(pkg0(lower K \<mapsto> v0)) k = Some v"
    | (later) "\<exists>l \<in> set (header_lines (dropWhile is_continuation lines)). \<exists>K t.
         split_once '': '' [] l = Some (K, t) \<and> k = lower K \<and> from_header K t v"
    by blast
  then show ?case
  proof cases
    case here
    show ?thesis
    proof (cases "k = lower K")
      case True
      with here have "v = v0" by simp
      with fv have "from_header K t v" by (simp add: field_value_from_header)
      with sp True show ?thesis by auto
    next
      case False
      with here show ?thesis by simp
    qed
  next
    case later
    then show ?thesis by auto
  qed
qed

text \<open>An integer is stored under the key \<open>size\<close> only, so the name and the version of
  a parsed record are text.\<close>

lemma parse_lines_number_only_size:
  assumes "parse_lines ls Map.empty = Inr pkg" and "pkg k = Some (Number n)"
  shows "k = ''size''"
proof -
  from parse_lines_origin [OF assms] obtain K t
    where "k = lower K" "from_header K t (Number n)"
    by auto
  then show ?thesis
    by (simp add: from_header_def lower_def lower_char_def char_of_def bit_Suc_0_iff)
qed

text \<open>
  Claim C5, as the code has it. The list that is joined starts with the header's own
  value: for a header \<open>K: t\<close> (not \<open>Size\<close>) followed by exactly the continuation lines
  \<open>" a"\<close>, \<open>" ."\<close>, \<open>" b"\<close>, the parsed value of the field is \<open>t\<close>, a newline, and then
  \<open>"a\n\nb"\<close>; the dot line contributes the empty text. The field keeps this value when
  no later header of the stanza has the same lower-cased name.
\<close>

theorem continuation_lines_folded:
  assumes "py_split [nl] (strip_nl stanza) = pre @ hdr # '' a'' # '' .'' # '' b'' # rest"
    and "\<not> is_continuation hdr"
    and "split_once '': '' [] hdr = Some (K, t)"
    and "K \<noteq> ''Size''"
    and "rest = [] \<or> \<not> is_continuation (hd rest)"
    and "\<forall>l \<in> set rest. \<forall>K' t'. split_once '': '' [] l = Some (K', t') \<longrightarrow> lower K' \<noteq> lower K"
    and "parse_package_metadata stanza = Inr pkg"
  shows "pkg (lower K) = Some (Text (t @ nl # ''a'' @ [nl, nl] @ ''b''))"
proof -
  from assms(1,7) have "parse_lines (pre @ hdr # '' a'' # '' .'' # '' b'' # rest) Map.empty = Inr pkg"
    by (simp add: parse_package_metadata_def)
  then obtain p where "parse_lines (hdr # '' a'' # '' .'' # '' b'' # rest) p = Inr pkg"
    by (simp add: parse_lines_append [OF assms(2)] split: sum.splits del: parse_lines.simps)
  then have "parse_lines rest (p(lower K \<mapsto> Text (t @ nl # ''a'' @ [nl, nl] @ ''b''))) = Inr pkg"
    by (simp only: continuation_fold [OF assms(3,4,5)])
  from parse_lines_untouched [OF this assms(6)] show ?thesis by simp
qed


lemma lines_stanza_folded:
  "py_split [nl] (strip_nl stanza_folded) =
     [''Package: hello''] @ ''Description: greeter'' # '' a'' # '' .'' # '' b'' #
     [''uri: http://a.test/debian'']"
  by (simp add: stanza_folded_def text_eval)

lemma parse_stanza_folded: "parse_package_metadata stanza_folded = Inr fields_folded"
  by (simp add: stanza_folded_def fields_folded_def text_eval)

theorem continuation_lines_folded_witness:
  "py_split [nl] (strip_nl stanza_folded) =
     [''Package: hello''] @ ''Description: greeter'' # '' a'' # '' .'' # '' b'' #
     [''uri: http://a.test/debian''] \<and>
   split_once '': '' [] ''Description: greeter'' = Some (''Description'', ''greeter'') \<and>
   parse_package_metadata stanza_folded = Inr fields_folded \<and>
   fields_folded (lower ''Description'') =
     Some (Text (''greeter'' @ nl # ''a'' @ [nl, nl] @ ''b''))"
proof -
  have b: "\<not> is_continuation ''Description: greeter''"
    by (simp add: text_eval)
  have c: "split_once '': '' [] ''Description: greeter'' = Some (''Description'', ''greeter'')"
    by (simp add: text_eval)
  have d: "''Description'' \<noteq> ''Size''" by simp
  have e: "[''uri: http://a.test/debian''] = [] \<or>
           \<not> is_continuation (hd [''uri: http://a.test/debian''])"
    by (simp add: text_eval)
  have f: "\<forall>l \<in> set [''uri: http://a.test/debian'']. \<forall>K' t'.
             split_once '': '' [] l = Some (K', t') \<longrightarrow> lower K' \<noteq> lower ''Description''"
    by (simp add: text_eval)
  from continuation_lines_folded [OF lines_stanza_folded b c d e f parse_stanza_folded]
    lines_stanza_folded c parse_stanza_folded
  show ?thesis by (intro conjI)
qed

text \<open>Claim C5 as stated fails: the value is not \<open>"a\n\nb"\<close>. With the header
  \<open>Description: greeter\<close> it is \<open>"greeter\na\n\nb"\<close>, and with an empty header value it
  still begins with a newline.\<close>

theorem continuation_value_counterexample:
  "parse_package_metadata stanza_folded = Inr fields_folded \<and>
   fields_folded ''description'' = Some (Text (''greeter'' @ nl # ''a'' @ [nl, nl] @ ''b'')) \<and>
   parse_package_metadata stanza_folded_empty =
     Inr [''package'' \<mapsto> Text ''hello'',
          ''description'' \<mapsto> Text (nl # ''a'' @ [nl, nl] @ ''b''),
          ''uri'' \<mapsto> Text ''http://a.test/debian''] \<and>
   ''greeter'' @ nl # ''a'' @ [nl, nl] @ ''b'' \<noteq> ''a'' @ [nl, nl] @ ''b'' \<and>
   nl # ''a'' @ [nl, nl] @ ''b'' \<noteq> ''a'' @ [nl, nl] @ ''b''"
  by (simp add: stanza_folded_def stanza_folded_empty_def fields_folded_def text_eval)




section \<open>Source lines that are skipped\<close>






section \<open>Cache path of an index\<close>

lemma last_ext_gz: "last_ext (body @ ''.gz'') (Suc (Suc (Suc (length body)))) = Some (length body)"
proof -
  have "\<not> ext_at []" "\<not> ext_at ''z''" "\<not> ext_at ''gz''" "ext_at ''.gz''"
    by (simp_all add: ext_at_def starts_with_def)
  then have "last_ext (body @ ''.gz'') (Suc (Suc (Suc (length body)))) =
               last_ext (body @ ''.gz'') (length body)"
    by simp
  also have "\<dots> = Some (length body)"
    using \<open>ext_at ''.gz''\<close> by (cases "length body") auto
  finally show ?thesis .
qed

lemma url_matcher_group1_gz:
  assumes "scheme = ''http://'' \<or> scheme = ''https://''" and "nl \<notin> set body"
  shows "url_matcher_group1 (scheme @ body @ ''.gz'') = Some body"
proof -
  have rest: "strip_scheme (scheme @ body @ ''.gz'') = Some (body @ ''.gz'')"
    using assms(1) by (auto simp: strip_scheme_def starts_with_def)
  have "takeWhile (\<lambda>c. c \<noteq> nl) (body @ ''.gz'') = body @ ''.gz''"
    using assms(2) by (auto simp: takeWhile_eq_all_conv)
  then have "length (takeWhile (\<lambda>c. c \<noteq> nl) (body @ ''.gz'')) = Suc (Suc (Suc (length body)))"
    by simp
  then show ?thesis
    by (simp add: url_matcher_group1_def rest last_ext_gz del: last_ext.simps)
qed

lemma join_cache_root:
  "path_join ''/var/lib/apt/lists'' [replace_slash g] = ''/var/lib/apt/lists/'' @ replace_slash g"
proof -
  have "\<not> starts_with ''/'' (replace_slash g)"
    by (cases g) (simp_all add: starts_with_def replace_slash_def)
  then show ?thesis
    by (simp add: path_join_def join2_def)
qed

lemma cache_path_gz:
  assumes "scheme = ''http://'' \<or> scheme = ''https://''" and "nl \<notin> set body"
  shows "local_file_path (scheme @ body @ ''.gz'') =
           Inr (''/var/lib/apt/lists/'' @ replace_slash body)"
  by (simp add: local_file_path_def url_matcher_group1_gz [OF assms] join_cache_root)

lemma join2_after_scheme:
  assumes "scheme = ''http://'' \<or> scheme = ''https://''" and "\<not> starts_with ''/'' b"
  shows "join2 (scheme @ h) b = scheme @ join2 h b"
proof (cases "h = []")
  case True
  with assms show ?thesis by (auto simp: join2_def)
next
  case False
  with assms show ?thesis by (auto simp: join2_def)
qed

lemma join2_no_newline:
  assumes "nl \<notin> set p" and "nl \<notin> set b"
  shows "nl \<notin> set (join2 p b)"
  using assms by (auto simp: join2_def)

lemma packages_file_url_shape:
  assumes "scheme = ''http://'' \<or> scheme = ''https://''"
    and "\<not> starts_with ''/'' release" and "\<not> starts_with ''/'' component"
  shows "packages_file_url (scheme @ host) release component =
           scheme @ index_body host release component @ ''.gz''"
proof -
  have d: "\<not> starts_with ''/'' ''dists''"
    and p: "\<not> starts_with ''/'' ''binary-amd64/Packages''"
    by (simp_all add: starts_with_def)
  have last_part:
    "join2 x ''binary-amd64/Packages.gz'' = join2 x ''binary-amd64/Packages'' @ ''.gz''" for x
    by (simp add: join2_def starts_with_def)
  show ?thesis
    by (simp add: packages_file_url_def index_body_def path_join_def
        join2_after_scheme [OF assms(1)] d p assms(2,3) last_part)
qed

lemma index_body_no_newline:
  assumes "nl \<notin> set host" and "nl \<notin> set release" and "nl \<notin> set component"
  shows "nl \<notin> set (index_body host release component)"
proof -
  have "nl \<notin> set ''dists''" and "nl \<notin> set ''binary-amd64/Packages''"
    by simp_all
  with assms show ?thesis
    unfolding index_body_def path_join_def foldl.simps
    by (intro join2_no_newline)
qed

text \<open>
  Claim C4, as the code has it. The index URL of a component is the base URL (a
  scheme \<open>http://\<close> or \<open>https://\<close> and the rest), \<open>dists\<close>, the release, the component and
  \<open>binary-amd64/Packages.gz\<close>, joined by slashes. Its cache path is the index-cache root
  \<open>/var/lib/apt/lists\<close> joined with that URL text without the scheme and without the
  suffix \<open>.gz\<close>, every slash replaced by an underscore. When a file exists at that path,
  its content is the index text and the list of requests stays as it was.
\<close>

theorem cache_path_strips_scheme_and_suffix:
  assumes "scheme = ''http://'' \<or> scheme = ''https://''"
    and "\<not> starts_with ''/'' source_release"
    and "\<not> starts_with ''/'' source_component"
    and "nl \<notin> set host \<union> set source_release \<union> set source_component"
  shows "local_file_path (packages_file_url (scheme @ host) source_release source_component) =
           Inr (''/var/lib/apt/lists/'' @
                replace_slash (index_body host source_release source_component)) \<and>
         (\<forall>text.
            files st (''/var/lib/apt/lists/'' @
                      replace_slash (index_body host source_release source_component)) =
              Some text \<longrightarrow>
            fetch_index e (packages_file_url (scheme @ host) source_release source_component) st =
              Inr (text, st))"
proof -
  let ?body = "index_body host source_release source_component"
  have url: "packages_file_url (scheme @ host) source_release source_component =
               scheme @ ?body @ ''.gz''"
    by (rule packages_file_url_shape [OF assms(1,2,3)])
  from assms(4) have "nl \<notin> set ?body"
    by (intro index_body_no_newline) simp_all
  from cache_path_gz [OF assms(1) this]
  have path: "local_file_path (scheme @ ?body @ ''.gz'') =
                Inr (''/var/lib/apt/lists/'' @ replace_slash ?body)" .
  then show ?thesis
    unfolding url by (simp add: fetch_index_def)
qed

section \<open>The injected \<open>uri\<close> field\<close>












section \<open>Download of a file that is already there\<close>

lemma already_downloaded_cases:
  assumes "already_downloaded output_dir package st"
  obtains uri filename existing where "getattr package ''uri'' = Inr uri"
    and "getattr package ''filename'' = Inr filename"
    and "files st (output_dir @ ''/'' @ py_str filename) = Some existing"
    and "getattr package ''size'' = Inr (Number (int (length existing)))"
proof (cases "getattr package ''uri''")
  case (Inl err)
  with assms show ?thesis by (simp add: already_downloaded_def)
next
  case uri: (Inr uri)
  show ?thesis
  proof (cases "getattr package ''filename''")
    case (Inl err)
    with assms uri show ?thesis by (simp add: already_downloaded_def)
  next
    case filename: (Inr filename)
    show ?thesis
    proof (cases "files st (output_dir @ ''/'' @ py_str filename)")
      case None
      with assms uri filename show ?thesis by (simp add: already_downloaded_def)
    next
      case (Some existing)
      with assms uri filename that show ?thesis by (simp add: already_downloaded_def)
    qed
  qed
qed

lemma download_package_skips:
  assumes "already_downloaded output_dir package st"
  shows "download_package e output_dir package st = (None, st)"
proof -
  from assms obtain uri filename existing where "getattr package ''uri'' = Inr uri"
    and "getattr package ''filename'' = Inr filename"
    and "files st (output_dir @ ''/'' @ py_str filename) = Some existing"
    and "getattr package ''size'' = Inr (Number (int (length existing)))"
    by (rule already_downloaded_cases)
  then show ?thesis
    by (simp add: download_package_def Let_def)
qed

text \<open>
  Claim C6. A record whose target \<open><output_dir>/<filename>\<close> is a file of exactly
  \<open>size\<close> bytes is passed over: the download of it returns without an error and with
  the state it started from, so no request is added and no file is changed. A whole
  run over records that are all in this condition ends with the state it started
  from: it issues no request.
\<close>

theorem matching_target_is_not_downloaded:
  assumes "\<forall>(package_name, package) \<in> set records. already_downloaded output_dir package st"
  shows "download_all e output_dir records st = (None, st) \<and>
         (\<forall>(package_name, package) \<in> set records.
            download_package e output_dir package st = (None, st))"
  using assms
proof (induction records)
  case Nil
  show ?case by simp
next
  case (Cons r records)
  obtain package_name package where r: "r = (package_name, package)"
    by (cases r)
  from Cons.prems r have "already_downloaded output_dir package st"
    by simp
  then have here: "download_package e output_dir package st = (None, st)"
    by (rule download_package_skips)
  from Cons.prems have "\<forall>(n, p) \<in> set records. already_downloaded output_dir p st"
    by simp
  from Cons.IH [OF this] here r show ?case
    by simp
qed

section \<open>Evaluation on the concrete repository\<close>





lemma packages_file_url_main:
  "packages_file_url ''http://example.test/debian'' ''bookworm'' ''main'' = url_main"
  by (simp add: packages_file_url_def path_join_def join2_def starts_with_def url_main_def)

section \<open>The properties on the concrete repository\<close>


text \<open>Witness of C4: the index URL of the component \<open>main\<close>, with its file in the
  cache.\<close>

theorem cache_path_strips_scheme_and_suffix_witness:
  "packages_file_url (''http://'' @ ''example.test/debian'') ''bookworm'' ''main'' = url_main \<and>
   local_file_path url_main = Inr cache_main \<and>
   files sys_cached cache_main = Some index_main \<and>
   fetch_index env0 url_main sys_cached = Inr (index_main, sys_cached)"
proof -
  have a: "''http://'' = ''http://'' \<or> ''http://'' = ''https://''" by simp
  have b: "\<not> starts_with ''/'' ''bookworm''" and c: "\<not> starts_with ''/'' ''main''"
    by (simp_all add: starts_with_def)
  have d: "nl \<notin> set ''example.test/debian'' \<union> set ''bookworm'' \<union> set ''main''"
    by simp
  have u: "packages_file_url (''http://'' @ ''example.test/debian'') ''bookworm'' ''main'' =
             url_main"
    using packages_file_url_main by simp
  have p: "''/var/lib/apt/lists/'' @
           replace_slash (index_body ''example.test/debian'' ''bookworm'' ''main'') = cache_main"
    by (simp add: index_body_def path_join_def join2_def starts_with_def replace_slash_def
        cache_main_def)
  have f: "files sys_cached cache_main = Some index_main"
    by (simp add: sys_cached_def)
  from cache_path_strips_scheme_and_suffix [OF a b c d, of sys_cached env0] f
  show ?thesis
    unfolding u p by simp
qed

text \<open>Claim C4 as stated fails: the path of the specification keeps the suffix
  \<open>.gz\<close>, the path of the code does not.\<close>

theorem cache_path_counterexample:
  "local_file_path url_main = Inr cache_main \<and>
   spec_cache_path url_main = cache_main @ ''.gz'' \<and>
   local_file_path url_main \<noteq> Inr (spec_cache_path url_main)"
proof -
  have a: "url_main = ''http://'' @ body_main @ ''.gz''"
    by (simp add: url_main_def body_main_def)
  have b: "local_file_path url_main = Inr cache_main"
    unfolding a
    by (simp add: local_file_path_def url_matcher_group1_def strip_scheme_def starts_with_def
        body_main_def ext_at_def path_join_def join2_def replace_slash_def cache_main_def)
  have c: "spec_cache_path url_main = cache_main @ ''.gz''"
    by (simp add: spec_cache_path_def url_main_def strip_scheme_def starts_with_def
        path_join_def join2_def replace_slash_def cache_main_def)
  from b c show ?thesis by simp
qed




text \<open>Witness of C6: the first run downloads the file; the second run, started from
  the state that the first one left, changes nothing.\<close>

lemma first_download:
  "download_all env0 ''/tmp/apt-download'' [(''hello'', record_hello)] sys0 =
     (None, sys_downloaded)"
  by (simp add: download_package_def fetch_to_def record_hello_def env0_def sys0_def
      sys_downloaded_def text_eval)

theorem matching_target_is_not_downloaded_witness:
  "already_downloaded ''/tmp/apt-download'' record_hello sys_downloaded \<and>
   download_all env0 ''/tmp/apt-download'' [(''hello'', record_hello)] sys0 =
     (None, sys_downloaded) \<and>
   download_all env0 ''/tmp/apt-download'' [(''hello'', record_hello)] sys_downloaded =
     (None, sys_downloaded)"
proof -
  have there: "already_downloaded ''/tmp/apt-download'' record_hello sys_downloaded"
    by (simp add: already_downloaded_def record_hello_def sys_downloaded_def)
  then have "\<forall>(package_name, package) \<in> set [(''hello'', record_hello)].
          already_downloaded ''/tmp/apt-download'' package sys_downloaded"
    by simp
  from matching_target_is_not_downloaded [OF this, of env0] there first_download
  show ?thesis by blast
qed

end
